theory Spec2Isabelle
  imports Complex_Main "HOL-Library.Word"
begin

section \<open>People Portal UI: validation helpers and the profile page\<close>

text \<open>
  A shallow embedding of \<^verbatim>\<open>src/lib/validation.ts\<close> and of the logic of
  \<^verbatim>\<open>src/components/fabric/DashboardPeopleInfo.tsx\<close>: the file-signature check, the
  file-selection handler, the avatar upload, the profile save and the role-entry builder.
  React state is a record that each handler takes and returns; what a handler does to the
  outside (toasts, file reads, network requests, the callbacks of the parent) is the list
  of events it returns, in the order of the source; what the outside answers (responses,
  rejected promises) is an argument.
\<close>

subsection \<open>JavaScript strings\<close>

text \<open>
  A JavaScript string is a sequence of UTF-16 code units. The strings whose characters the
  code inspects (the full name) are modelled so; identifiers, messages and URLs, which the
  code only compares and tests for emptiness, are \<^typ>\<open>string\<close>.
\<close>

type_synonym code_unit = "16 word"
type_synonym jsstring = "code_unit list"

definition utf16 :: "string \<Rightarrow> jsstring" where
  "utf16 s = map of_char s"

text \<open>The characters matched by \<^verbatim>\<open>\s\<close> and removed by \<^verbatim>\<open>trim()\<close>: ECMAScript's
  WhiteSpace and LineTerminator.\<close>

definition isWhiteSpace :: "code_unit \<Rightarrow> bool" where
  "isWhiteSpace c \<longleftrightarrow>
     c = 0x9 \<or> c = 0xA \<or> c = 0xB \<or> c = 0xC \<or> c = 0xD \<or> c = 0x20 \<or> c = 0xA0 \<or>
     c = 0x1680 \<or> (0x2000 \<le> c \<and> c \<le> 0x200A) \<or> c = 0x2028 \<or> c = 0x2029 \<or>
     c = 0x202F \<or> c = 0x205F \<or> c = 0x3000 \<or> c = 0xFEFF"

definition trim :: "jsstring \<Rightarrow> jsstring" where
  "trim s = rev (dropWhile isWhiteSpace (rev (dropWhile isWhiteSpace s)))"

text \<open>
  \<^verbatim>\<open>s.split(/\s+/)\<close>: the scan of ECMAScript's split. \<open>tok\<close> is the substring
  between the end of the last separator and the scan position; where the pattern matches, it
  matches the whole run of white space (the quantifier is greedy), the substring is emitted
  and the scan resumes behind the run. The rest of the string is emitted at the end, so the
  empty string splits into one empty substring.
\<close>

function split_from :: "jsstring \<Rightarrow> jsstring \<Rightarrow> jsstring list" where
  "split_from tok [] = [tok]"
| "split_from tok (c # cs) =
     (if isWhiteSpace c then tok # split_from [] (dropWhile isWhiteSpace cs)
      else split_from (tok @ [c]) cs)"
  by pat_completeness auto
termination
  by (relation "measure (\<lambda>(tok, s). length s)")
     (auto simp: length_dropWhile_le less_Suc_eq_le)

definition split_ws :: "jsstring \<Rightarrow> jsstring list" where
  "split_ws s = split_from [] s"

subsection \<open>validation.ts\<close>

record validation_result =
  isValid :: bool
  error :: "string option"

definition validateFullName :: "jsstring \<Rightarrow> validation_result" where
  "validateFullName fullName =
     (if fullName = [] then \<lparr>isValid = False, error = Some ''Full name is required''\<rparr>
      else
        let trimmed = trim fullName;
            parts = filter (\<lambda>part. length part > 0) (split_ws trimmed)
        in if length parts < 2
           then \<lparr>isValid = False, error = Some ''Please provide both first and last name''\<rparr>
           else \<lparr>isValid = True, error = None\<rparr>)"

text \<open>
  The tokens of a string in the words of the specification: the maximal runs of characters
  that are not white space, from left to right.
\<close>

function ws_tokens :: "jsstring \<Rightarrow> jsstring list" where
  "ws_tokens s =
     (case dropWhile isWhiteSpace s of
        [] \<Rightarrow> []
      | c # r \<Rightarrow> (c # takeWhile (\<lambda>x. \<not> isWhiteSpace x) r)
                 # ws_tokens (dropWhile (\<lambda>x. \<not> isWhiteSpace x) r))"
  by pat_completeness auto
termination
proof (relation "measure length", simp)
  fix s :: jsstring and c r
  assume d: "dropWhile isWhiteSpace s = c # r"
  have "length (dropWhile (\<lambda>x. \<not> isWhiteSpace x) r) \<le> length r"
    by (rule length_dropWhile_le)
  moreover have "length (c # r) \<le> length s"
    unfolding d [symmetric] by (rule length_dropWhile_le)
  ultimately show "(dropWhile (\<lambda>x. \<not> isWhiteSpace x) r, s) \<in> measure length"
    by simp
qed

subsection \<open>Files and the signature check\<close>

type_synonym byte = "8 word"
type_synonym blob = "byte list"

text \<open>A \<^verbatim>\<open>File\<close>: its name, its declared MIME type and its bytes; \<^verbatim>\<open>file.size\<close> is
  the number of bytes.\<close>

record File =
  fname :: string
  ftype :: string
  content :: blob

definition fsize :: "File \<Rightarrow> nat" where
  "fsize f = length (content f)"

text \<open>\<^verbatim>\<open>n.toString(16)\<close> for a non-negative integer: no leading zero is added.\<close>

function toString16 :: "nat \<Rightarrow> string" where
  "toString16 n =
     (if n < 16 then [''0123456789abcdef'' ! n]
      else toString16 (n div 16) @ [''0123456789abcdef'' ! (n mod 16)])"
  by pat_completeness auto
termination
  by (relation "measure id") auto

definition startsWith :: "string \<Rightarrow> string \<Rightarrow> bool" where
  "startsWith s p \<longleftrightarrow> take (length p) s = p"

text \<open>The loop over \<^verbatim>\<open>arr\<close> that appends each byte's rendering to \<^verbatim>\<open>header\<close>.\<close>

definition hexHeader :: "byte list \<Rightarrow> string" where
  "hexHeader arr = foldl (\<lambda>header b. header @ toString16 (unat b)) [] arr"

text \<open>
  The \<^verbatim>\<open>onloadend\<close> callback of \<^verbatim>\<open>validateFileSignature\<close>: \<open>None\<close> is a reader without
  a result (the read failed), \<open>Some buf\<close> the array buffer read.
\<close>

definition signatureOnLoadEnd :: "blob option \<Rightarrow> bool" where
  "signatureOnLoadEnd result =
     (case result of
        None \<Rightarrow> False
      | Some buf \<Rightarrow>
          let arr = take 4 buf;
              header = hexHeader arr
          in startsWith header ''89504e47'' \<or> startsWith header ''ffd8ff'' \<or>
             startsWith header ''47494638'' \<or> startsWith header ''52494646'')"

definition validateFileSignature :: "File \<Rightarrow> bool" where
  "validateFileSignature f = signatureOnLoadEnd (Some (take 4 (content f)))"

text \<open>
  The magic numbers as bytes, in the words of the specification: PNG \<^verbatim>\<open>89 50 4e 47\<close>,
  JPEG \<^verbatim>\<open>ff d8 ff\<close>, GIF \<^verbatim>\<open>47 49 46 38\<close>, RIFF \<^verbatim>\<open>52 49 46 46\<close>; a file matches one when
  its first bytes are those.
\<close>

definition magicNumbers :: "byte list list" where
  "magicNumbers =
     [[0x89, 0x50, 0x4e, 0x47], [0xff, 0xd8, 0xff], [0x47, 0x49, 0x46, 0x38],
      [0x52, 0x49, 0x46, 0x46]]"

definition matchesMagicNumber :: "byte list \<Rightarrow> bool" where
  "matchesMagicNumber bs \<longleftrightarrow> list_ex (\<lambda>m. take (length m) (take 4 bs) = m) magicNumbers"

subsection \<open>The records of the backend\<close>

datatype TeamType = PROJECT | CORPORATE | BOOTCAMP | SERVICE

datatype SeasonType = FALL | SPRING | ROLLING

record TeamAttributeDefinition =
  attr_friendlyName :: string
  attr_teamType :: TeamType
  attr_seasonType :: SeasonType
  attr_seasonYear :: int
  attr_description :: string

text \<open>
  \<^verbatim>\<open>roles\<close> is an object from team pk to role title: the list of its entries, in the order
  of \<^verbatim>\<open>Object.entries\<close>. The optional \<^verbatim>\<open>avatar\<close> is \<open>None\<close> when undefined.
\<close>

record UserAttributeDefinition =
  major :: string
  expectedGrad :: string
  phoneNumber :: string
  roles :: "(string \<times> string) list"
  alumniAccount :: bool
  avatar :: "string option"

record UMDApiMajorListResponse =
  college :: string
  major_id :: string
  major_name :: string
  url :: string

record GroupInfo =
  group_name :: string
  group_pk :: string
  group_attributes :: TeamAttributeDefinition

text \<open>\<^verbatim>\<open>UserInformationDetail\<close>, with the fields it inherits from
  \<^verbatim>\<open>UserInformationBrief\<close>; \<open>user_avatar\<close> is the field \<^verbatim>\<open>avatar\<close> of the user (the
  image URL), \<open>avatar\<close> the storage key among the attributes.\<close>

record UserInformationDetail =
  pk :: string
  username :: string
  name :: string
  email :: string
  memberSince :: string
  active :: bool
  attributes :: UserAttributeDefinition
  is_superuser :: bool
  user_avatar :: string
  groups :: "string list"
  last_login :: string
  user_type :: string
  groupsInfo :: "GroupInfo list"

record TeamInformationBrief =
  team_name :: string
  team_pk :: string
  parent :: "string option"
  teamType :: TeamType
  seasonType :: SeasonType
  seasonYear :: int
  description :: string
  friendlyName :: string
  peoplePortalCreation :: bool

subsection \<open>State, events and answers of the outside\<close>

record Area =
  area_x :: real
  area_y :: real
  width :: real
  height :: real

text \<open>The state hooks of \<^verbatim>\<open>EditProfileModal\<close>; \<open>st_phoneNumber\<close> and
  \<open>st_expectedGrad\<close> are the hooks \<^verbatim>\<open>phoneNumber\<close> and \<^verbatim>\<open>expectedGrad\<close>.\<close>

record modal_state =
  st_phoneNumber :: string
  st_expectedGrad :: string
  selectedMajor :: "UMDApiMajorListResponse option"
  majors :: "UMDApiMajorListResponse list"
  majorListOpen :: bool
  isSaving :: bool
  preview :: "string option"
  avatarKey :: "string option"
  isUploading :: bool
  cropImage :: "string option"
  crop :: "real \<times> real"
  zoom :: real
  croppedAreaPixels :: "Area option"
  isCroppingOpen :: bool

text \<open>The body of the PATCH request; a field that is undefined is left out by
  \<^verbatim>\<open>JSON.stringify\<close>, here \<open>None\<close>.\<close>

record patch_body =
  patch_major :: "string option"
  patch_phoneNumber :: string
  patch_expectedGrad :: "string option"
  patch_avatar :: "string option"

text \<open>A thrown value, as far as the handlers look at it: its \<^verbatim>\<open>message\<close>, \<open>None\<close> when
  it has none (the error event of an image).\<close>

type_synonym thrown = "string option"

text \<open>
  What a handler does to the outside, in the order of the source: a toast (its title and,
  for an error, the description), \<^verbatim>\<open>readAsArrayBuffer(file.slice(a, b))\<close> by the
  signature check, \<^verbatim>\<open>readAsDataURL(file)\<close>, the request of an upload URL (file name and
  content type), the POST to the storage (URL, form entries, file), the PATCH of the user
  (pk and body), and the calls of \<^verbatim>\<open>onSuccess\<close> and \<^verbatim>\<open>onClose\<close>.
\<close>

datatype event =
    ToastError string thrown
  | ToastInfo string
  | ToastSuccess string
  | ReadAsArrayBuffer nat nat
  | ReadAsDataURL
  | GetUploadUrl string string
  | PostStorage string "(string \<times> string) list" File
  | Patch string patch_body
  | OnSuccess UserInformationDetail
  | OnClose

text \<open>What \<^verbatim>\<open>await fetch(...)\<close> gives: the promise rejects, or a response with its
  \<^verbatim>\<open>ok\<close> flag and what reading its body gives.\<close>

datatype 'a response = Threw thrown | Response bool 'a

record upload_target =
  uploadUrl :: string
  key :: string
  form_fields :: "(string \<times> string) list"

text \<open>
  What the outside answers during \<^verbatim>\<open>processAndUploadAvatar\<close>: whether the image loads,
  whether the canvas has a 2d context, the blob of the canvas, the result of
  \<^verbatim>\<open>imageCompression\<close>, the URL that \<^verbatim>\<open>URL.createObjectURL\<close> returns, the response to the
  upload-URL request with its parsed body, and the response of the storage.
\<close>

record upload_env =
  imageLoads :: bool
  has2dContext :: bool
  canvasBlob :: "blob option"
  compressed :: "thrown + blob"
  objectURL :: string
  uploadUrlResponse :: "(thrown + upload_target) response"
  storageResponse :: "unit response"

subsection \<open>EditProfileModal\<close>

text \<open>
  The initial values of the hooks. \<open>fmt\<close> is \<^verbatim>\<open>format(new Date(d), 'yyyy-MM-dd')\<close> of
  date-fns, a library outside the repository.
\<close>

definition initModal :: "(string \<Rightarrow> string) \<Rightarrow> UserInformationDetail \<Rightarrow> modal_state" where
  "initModal fmt user =
     \<lparr>st_phoneNumber = phoneNumber (attributes user),
      st_expectedGrad =
        (if expectedGrad (attributes user) \<noteq> [] then fmt (expectedGrad (attributes user))
         else []),
      selectedMajor = None,
      majors = [],
      majorListOpen = False,
      isSaving = False,
      preview = Some (user_avatar user),
      avatarKey = avatar (attributes user),
      isUploading = False,
      cropImage = None,
      crop = (0, 0),
      zoom = 1,
      croppedAreaPixels = None,
      isCroppingOpen = False\<rparr>"

text \<open>The effect that fetches the list of majors, once the list \<open>data\<close> has arrived.\<close>

definition majorsFetched ::
  "UMDApiMajorListResponse list \<Rightarrow> UserInformationDetail \<Rightarrow> modal_state \<Rightarrow> modal_state" where
  "majorsFetched data user s =
     (let s1 = s\<lparr>majors := data\<rparr>
      in case find (\<lambda>m. major_name m = major (attributes user)) data of
           Some currentMajor \<Rightarrow> s1\<lparr>selectedMajor := Some currentMajor\<rparr>
         | None \<Rightarrow> s1)"

definition allowedTypes :: "string list" where
  "allowedTypes = [''image/jpeg'', ''image/png'', ''image/webp'', ''image/gif'']"

text \<open>
  \<^verbatim>\<open>onFileChange\<close>. \<open>selected\<close> is \<^verbatim>\<open>e.target.files?.[0]\<close>; \<open>loaded\<close> is the result of
  the second reader when its load event fires, \<open>None\<close> when it never does.
\<close>

definition onFileChange ::
  "string option \<Rightarrow> File option \<Rightarrow> modal_state \<Rightarrow> modal_state \<times> event list" where
  "onFileChange loaded selected s =
     (case selected of
        None \<Rightarrow> (s, [])
      | Some f \<Rightarrow>
          if ftype f \<notin> set allowedTypes
          then (s, [ToastError ''Invalid file type''
                      (Some ''Please upload an image (JPEG, PNG, WEBP, GIF)'')])
          else if \<not> validateFileSignature f
          then (s, [ReadAsArrayBuffer 0 4,
                    ToastError ''Invalid file content''
                      (Some ''The file content does not match its extension.'')])
          else if fsize f > 20 * 1024 * 1024
          then (s, [ReadAsArrayBuffer 0 4,
                    ToastError ''File is too large!'' (Some ''Maximum file size is 20MB'')])
          else
            let s1 = s\<lparr>crop := (0, 0), zoom := 1, croppedAreaPixels := None\<rparr>
            in (case loaded of
                  None \<Rightarrow> s1
                | Some dataUrl \<Rightarrow> s1\<lparr>cropImage := Some dataUrl, isCroppingOpen := True\<rparr>,
                [ReadAsArrayBuffer 0 4, ReadAsDataURL]))"

definition getCroppedImg :: "upload_env \<Rightarrow> thrown + blob" where
  "getCroppedImg env =
     (if \<not> imageLoads env then Inl None
      else if \<not> has2dContext env then Inl (Some ''No 2d context'')
      else case canvasBlob env of
             None \<Rightarrow> Inl (Some ''Canvas is empty'')
           | Some b \<Rightarrow> Inr b)"

text \<open>
  The \<^verbatim>\<open>try\<close> block of \<^verbatim>\<open>processAndUploadAvatar\<close>: the state and the events when it is
  left, and the value thrown, if any.
\<close>

definition uploadTry ::
  "upload_env \<Rightarrow> modal_state \<Rightarrow> modal_state \<times> event list \<times> thrown option" where
  "uploadTry env s =
     (case getCroppedImg env of
        Inl e \<Rightarrow> (s, [], Some e)
      | Inr croppedBlob \<Rightarrow>
     (case compressed env of
        Inl e \<Rightarrow> (s, [], Some e)
      | Inr compressedBlob \<Rightarrow>
          let uploadFile =
                \<lparr>fname = ''avatar.webp'', ftype = ''image/webp'', content = compressedBlob\<rparr>;
              s1 = s\<lparr>preview := Some (objectURL env)\<rparr>;
              ev1 = [GetUploadUrl (fname uploadFile) (ftype uploadFile)]
          in
     (case uploadUrlResponse env of
        Threw e \<Rightarrow> (s1, ev1, Some e)
      | Response ok body \<Rightarrow>
          if \<not> ok then (s1, ev1, Some (Some ''Failed to get upload URL''))
          else
     (case body of
        Inl e \<Rightarrow> (s1, ev1, Some e)
      | Inr target \<Rightarrow>
          let formData = form_fields target @ [(''file'', fname uploadFile)];
              ev2 = ev1 @ [PostStorage (uploadUrl target) formData uploadFile]
          in
     (case storageResponse env of
        Threw e \<Rightarrow> (s1, ev2, Some e)
      | Response uploadOk _ \<Rightarrow>
          if \<not> uploadOk then (s1, ev2, Some (Some ''Failed to upload to S3''))
          else (s1\<lparr>avatarKey := Some (key target)\<rparr>,
                ev2 @ [ToastSuccess ''Profile picture updated!''], None))))))"

definition processAndUploadAvatar ::
  "upload_env \<Rightarrow> modal_state \<Rightarrow> modal_state \<times> event list" where
  "processAndUploadAvatar env s =
     (if cropImage s = None \<or> cropImage s = Some [] \<or> croppedAreaPixels s = None then (s, [])
      else
        let s0 = s\<lparr>isUploading := True, isCroppingOpen := False\<rparr>
        in case uploadTry env s0 of
             (s1, ev, thrown) \<Rightarrow>
               (s1\<lparr>isUploading := False, cropImage := None\<rparr>,
                ToastInfo ''Processing image...'' # ev @
                (case thrown of
                   None \<Rightarrow> []
                 | Some e \<Rightarrow> [ToastError ''Upload failed'' e])))"

text \<open>\<^verbatim>\<open>a || b\<close> on strings and on optional strings: the empty string and undefined are
  falsy.\<close>

definition orString :: "string \<Rightarrow> string \<Rightarrow> string" where
  "orString a b = (if a \<noteq> [] then a else b)"

definition orOption :: "string option \<Rightarrow> string option \<Rightarrow> string option" where
  "orOption a b = (case a of None \<Rightarrow> b | Some x \<Rightarrow> if x \<noteq> [] then Some x else b)"

text \<open>
  \<^verbatim>\<open>JSON.stringify(new Date(d))\<close> for a date-only string \<^verbatim>\<open>yyyy-MM-dd\<close>, the form of
  the value of a date input and of the rendering that initialises the hook: a date-only
  string is parsed as midnight UTC and serialised as an ISO timestamp.
\<close>

definition dateToJSON :: "string \<Rightarrow> string" where
  "dateToJSON d = d @ ''T00:00:00.000Z''"

definition patchBody :: "modal_state \<Rightarrow> patch_body" where
  "patchBody s =
     \<lparr>patch_major = map_option major_name (selectedMajor s),
      patch_phoneNumber = st_phoneNumber s,
      patch_expectedGrad =
        (if st_expectedGrad s \<noteq> [] then Some (dateToJSON (st_expectedGrad s)) else None),
      patch_avatar = avatarKey s\<rparr>"

text \<open>The record that \<^verbatim>\<open>handleSave\<close> passes to \<^verbatim>\<open>onSuccess\<close>.\<close>

definition mergedUser :: "UserInformationDetail \<Rightarrow> modal_state \<Rightarrow> UserInformationDetail" where
  "mergedUser user s =
     user\<lparr>user_avatar := orString (case preview s of None \<Rightarrow> [] | Some p \<Rightarrow> p) (user_avatar user),
          attributes := (attributes user)
            \<lparr>major := orString (case selectedMajor s of None \<Rightarrow> [] | Some m \<Rightarrow> major_name m)
                        (major (attributes user)),
             phoneNumber := st_phoneNumber s,
             expectedGrad := orString (st_expectedGrad s) (expectedGrad (attributes user)),
             avatar := orOption (avatarKey s) (avatar (attributes user))\<rparr>\<rparr>"

text \<open>
  The \<^verbatim>\<open>try\<close> block of \<^verbatim>\<open>handleSave\<close>. The body of a response that is not ok is what
  \<^verbatim>\<open>res.json()\<close> and the read of \<^verbatim>\<open>err.message\<close> give: a thrown value, or the message,
  \<open>None\<close> when the object has none.
\<close>

definition saveTry ::
  "(thrown + string option) response \<Rightarrow> UserInformationDetail \<Rightarrow> modal_state \<Rightarrow>
     event list \<times> thrown option" where
  "saveTry res user s =
     (let ev1 = [Patch (pk user) (patchBody s)]
      in case res of
           Threw e \<Rightarrow> (ev1, Some e)
         | Response ok body \<Rightarrow>
             if \<not> ok then
               (case body of
                  Inl e \<Rightarrow> (ev1, Some e)
                | Inr message \<Rightarrow>
                    (ev1, Some (Some (orString (case message of None \<Rightarrow> [] | Some m \<Rightarrow> m)
                                        ''Failed to update profile''))))
             else
               (ev1 @ [ToastSuccess ''Profile updated successfully!'',
                       OnSuccess (mergedUser user s), OnClose], None))"

definition handleSave ::
  "(thrown + string option) response \<Rightarrow> UserInformationDetail \<Rightarrow> modal_state \<Rightarrow>
     modal_state \<times> event list" where
  "handleSave res user s =
     (let s0 = s\<lparr>isSaving := True\<rparr>
      in case saveTry res user s0 of
           (ev, thrown) \<Rightarrow>
             (s0\<lparr>isSaving := False\<rparr>,
              ev @ (case thrown of
                      None \<Rightarrow> []
                    | Some e \<Rightarrow> [ToastError ''Save failed'' e])))"

subsection \<open>DashboardPeopleInfo\<close>

record dashboard =
  user :: "UserInformationDetail option"
  userTeamsMap :: "string \<rightharpoonup> TeamInformationBrief"
  loading :: bool
  isEditModalOpen :: bool

text \<open>The callbacks that the page passes to the modal: \<^verbatim>\<open>onSuccess\<close> replaces the user,
  \<^verbatim>\<open>onClose\<close> closes the dialog.\<close>

fun callback :: "dashboard \<Rightarrow> event \<Rightarrow> dashboard" where
  "callback d (OnSuccess updatedUser) = d\<lparr>user := Some updatedUser\<rparr>"
| "callback d OnClose = d\<lparr>isEditModalOpen := False\<rparr>"
| "callback d _ = d"

definition callbacks :: "event list \<Rightarrow> dashboard \<Rightarrow> dashboard" where
  "callbacks evs d = foldl callback d evs"

record RoleEntry =
  teamPk :: string
  roleTitle :: string
  teamInfo :: "TeamInformationBrief option"

text \<open>\<^verbatim>\<open>roleEntries\<close>; the first argument is \<^verbatim>\<open>attributes?.roles\<close>, \<open>None\<close> when it is
  undefined.\<close>

definition roleEntries ::
  "(string \<times> string) list option \<Rightarrow> (string \<rightharpoonup> TeamInformationBrief) \<Rightarrow> RoleEntry list" where
  "roleEntries rs teamsMap =
     filter (\<lambda>entry. teamInfo entry \<noteq> None)
       (map (\<lambda>(pk', title). \<lparr>teamPk = pk', roleTitle = title, teamInfo = teamsMap pk'\<rparr>)
          (case rs of None \<Rightarrow> [] | Some r \<Rightarrow> r))"

subsection \<open>Example values\<close>

text \<open>
  \<^verbatim>\<open>format(new Date(d), 'yyyy-MM-dd')\<close> on an ISO timestamp \<open>d\<close> of midday UTC, in a time
  zone within twelve hours of UTC: the date part of the timestamp, its first ten characters.
\<close>

definition formatISODate :: "string \<Rightarrow> string" where
  "formatISODate d = take 10 d"

definition exampleUser :: UserInformationDetail where
  "exampleUser =
     \<lparr>pk = ''42'', username = ''jdoe'', name = ''Jane Doe'', email = ''jdoe@umd.edu'',
      memberSince = ''2024-09-01T12:00:00.000Z'', active = True,
      attributes =
        \<lparr>major = ''Computer Science'', expectedGrad = ''2026-05-15T12:00:00.000Z'',
         phoneNumber = ''+13015550100'', roles = [(''t1'', ''Lead'')], alumniAccount = False,
         avatar = Some ''avatars/42.webp''\<rparr>,
      is_superuser = False, user_avatar = ''https://cdn.example/avatars/42.webp'',
      groups = [''members''], last_login = ''2026-01-10T12:00:00.000Z'',
      user_type = ''internal'', groupsInfo = []\<rparr>"

definition exampleTeam :: TeamInformationBrief where
  "exampleTeam =
     \<lparr>team_name = ''portal'', team_pk = ''t2'', parent = None, teamType = PROJECT,
      seasonType = FALL, seasonYear = 2025, description = ''People Portal'',
      friendlyName = ''Portal'', peoplePortalCreation = True\<rparr>"

text \<open>
  \<^verbatim>\<open>format(new Date(d), 'yyyy-MM-dd')\<close> of date-fns for an ISO timestamp
  \<^verbatim>\<open>YYYY-MM-DDTHH:mm:ss.sssZ\<close> in a browser whose local time is \<open>west\<close> hours behind
  UTC (at most 12): date-fns renders the local calendar date, which is the date of the
  timestamp when its hour is at least \<open>west\<close>, and the day before otherwise.
\<close>

definition digitsToNat :: "string \<Rightarrow> nat" where
  "digitsToNat ds = foldl (\<lambda>n c. 10 * n + (of_char c - 48)) 0 ds"

definition twoDigits :: "nat \<Rightarrow> string" where
  "twoDigits n = [''0123456789'' ! (n div 10 mod 10), ''0123456789'' ! (n mod 10)]"

definition fourDigits :: "nat \<Rightarrow> string" where
  "fourDigits n = twoDigits (n div 100) @ twoDigits n"

definition daysInMonth :: "nat \<Rightarrow> nat \<Rightarrow> nat" where
  "daysInMonth y m =
     (if m = 2 then (if y mod 400 = 0 then 29 else if y mod 100 = 0 then 28
                     else if y mod 4 = 0 then 29 else 28)
      else if m = 4 \<or> m = 6 \<or> m = 9 \<or> m = 11 then 30
      else 31)"

definition dayBefore :: "nat \<times> nat \<times> nat \<Rightarrow> nat \<times> nat \<times> nat" where
  "dayBefore date =
     (case date of
        (y, m, d) \<Rightarrow>
          if d > 1 then (y, m, d - 1)
          else if m > 1 then (y, m - 1, daysInMonth y (m - 1))
          else (y - 1, 12, 31))"

definition formatLocalDate :: "nat \<Rightarrow> string \<Rightarrow> string" where
  "formatLocalDate west ts =
     (let utcDate = (digitsToNat (take 4 ts), digitsToNat (take 2 (drop 5 ts)),
                     digitsToNat (take 2 (drop 8 ts)));
          utcHour = digitsToNat (take 2 (drop 11 ts))
      in case (if utcHour < west then dayBefore utcDate else utcDate) of
           (y, m, d) \<Rightarrow> fourDigits y @ ''-'' @ twoDigits m @ ''-'' @ twoDigits d)"

text \<open>The example user with a graduation date as the PATCH of \<^verbatim>\<open>handleSave\<close> writes
  it: midnight UTC of the day chosen in the form.\<close>

definition midnightUser :: UserInformationDetail where
  "midnightUser =
     exampleUser\<lparr>attributes :=
       (attributes exampleUser)\<lparr>expectedGrad := ''2026-05-15T00:00:00.000Z''\<rparr>\<rparr>"

text \<open>The modal of the example user with an image loaded into the cropper and a crop
  region chosen.\<close>

definition croppingState :: modal_state where
  "croppingState =
     (initModal formatISODate exampleUser)
       \<lparr>cropImage := Some ''data:image/png;base64,iVBORw0KGgo='',
        croppedAreaPixels := Some \<lparr>area_x = 0, area_y = 0, width = 256, height = 256\<rparr>,
        isCroppingOpen := True\<rparr>"

text \<open>A PNG file of 20 MiB and 4 bytes: the PNG magic number, then zeros.\<close>

definition largePng :: File where
  "largePng =
     \<lparr>fname = ''large.png'', ftype = ''image/png'',
      content = [0x89, 0x50, 0x4e, 0x47] @ replicate (20 * 1024 * 1024) 0\<rparr>"

text \<open>Answers of the outside in which the image is cropped and compressed, the backend
  refuses the upload-URL request (HTTP 500) and the storage would accept.\<close>

definition uploadUrlRefused :: upload_env where
  "uploadUrlRefused =
     \<lparr>imageLoads = True, has2dContext = True, canvasBlob = Some [0x52, 0x49, 0x46, 0x46],
      compressed = Inr [0x52, 0x49, 0x46, 0x46], objectURL = ''blob:avatar-1'',
      uploadUrlResponse = Response False (Inl None),
      storageResponse = Response True ()\<rparr>"

definition uploadAccepted :: upload_env where
  "uploadAccepted =
     uploadUrlRefused
       \<lparr>uploadUrlResponse :=
          Response True
            (Inr \<lparr>uploadUrl = ''https://storage.example/bucket'', key = ''avatars/42-new.webp'',
                  form_fields = [(''policy'', ''p''), (''signature'', ''s'')]\<rparr>)\<rparr>"

text \<open>The upload-URL request succeeds when the response is ok and its body is read; the
  storage POST succeeds when its response is ok.\<close>

definition uploadTarget :: "upload_env \<Rightarrow> upload_target option" where
  "uploadTarget env =
     (case uploadUrlResponse env of
        Threw e \<Rightarrow> None
      | Response ok body \<Rightarrow>
          if ok then (case body of Inl e \<Rightarrow> None | Inr target \<Rightarrow> Some target) else None)"

definition storageOk :: "upload_env \<Rightarrow> bool" where
  "storageOk env = (case storageResponse env of Threw e \<Rightarrow> False | Response ok b \<Rightarrow> ok)"

text \<open>A run reaches the upload when the handler starts (an image and a crop region are
  set) and the image is cropped and compressed.\<close>

definition reachesUpload :: "upload_env \<Rightarrow> modal_state \<Rightarrow> bool" where
  "reachesUpload env s \<longleftrightarrow>
     cropImage s \<noteq> None \<and> cropImage s \<noteq> Some [] \<and> croppedAreaPixels s \<noteq> None \<and>
     \<not> isl (getCroppedImg env) \<and> \<not> isl (compressed env)"

section \<open>Properties\<close>

declare ws_tokens.simps [simp del]
declare toString16.simps [simp del]

subsection \<open>Full names\<close>

lemma ws_tokens_Nil: "ws_tokens [] = []"
  by (subst ws_tokens.simps) simp

lemma ws_tokens_ws: "isWhiteSpace c \<Longrightarrow> ws_tokens (c # s) = ws_tokens s"
  by (subst ws_tokens.simps, subst (2) ws_tokens.simps) simp

lemma ws_tokens_dropWhile: "ws_tokens (dropWhile isWhiteSpace s) = ws_tokens s"
  by (subst ws_tokens.simps, subst (2) ws_tokens.simps) simp

text \<open>A run without white space that ends at a white space or at the end is the first
  token.\<close>

lemma ws_tokens_word:
  assumes "tok \<noteq> []" "\<forall>x\<in>set tok. \<not> isWhiteSpace x" "s = [] \<or> isWhiteSpace (hd s)"
  shows "ws_tokens (tok @ s) = tok # ws_tokens s"
proof -
  from assms(1) obtain t ts where tok: "tok = t # ts" by (cases tok) auto
  with assms(2) have t: "\<not> isWhiteSpace t" and ts: "\<And>x. x \<in> set ts \<Longrightarrow> \<not> isWhiteSpace x"
    by auto
  have tw: "takeWhile (\<lambda>x. \<not> isWhiteSpace x) (ts @ s) = ts"
    using assms(3) ts by (cases s) (auto simp: takeWhile_append2)
  have dw: "dropWhile (\<lambda>x. \<not> isWhiteSpace x) (ts @ s) = s"
    using assms(3) ts by (cases s) (auto simp: dropWhile_append2)
  show ?thesis
    by (subst ws_tokens.simps) (simp add: tok t tw dw)
qed

text \<open>The non-empty substrings that the split emits are the tokens.\<close>

lemma split_from_tokens:
  "\<forall>x\<in>set tok. \<not> isWhiteSpace x \<Longrightarrow>
     filter (\<lambda>p. p \<noteq> []) (split_from tok s) = ws_tokens (tok @ s)"
proof (induction tok s rule: split_from.induct)
  case (1 tok)
  then show ?case
    using ws_tokens_word [of tok "[]"] by (cases "tok = []") (simp_all add: ws_tokens_Nil)
next
  case (2 tok c cs)
  show ?case
  proof (cases "isWhiteSpace c")
    case True
    have rest:
      "filter (\<lambda>p. p \<noteq> []) (split_from [] (dropWhile isWhiteSpace cs)) = ws_tokens (c # cs)"
      using "2.IH"(1) [OF True] by (simp add: ws_tokens_dropWhile ws_tokens_ws True)
    show ?thesis
    proof (cases "tok = []")
      case True
      with rest \<open>isWhiteSpace c\<close> show ?thesis by simp
    next
      case False
      with rest \<open>isWhiteSpace c\<close> "2.prems" show ?thesis
        using ws_tokens_word [of tok "c # cs"] by simp
    qed
  next
    case False
    with "2.IH"(2) "2.prems" show ?thesis by simp
  qed
qed

lemma validateFullName_iff:
  "isValid (validateFullName s) \<longleftrightarrow> 2 \<le> length (ws_tokens (trim s))"
proof (cases "s = []")
  case True
  then show ?thesis by (simp add: validateFullName_def trim_def ws_tokens_Nil)
next
  case False
  have "filter (\<lambda>part. length part > 0) (split_ws (trim s)) = ws_tokens (trim s)"
    using split_from_tokens [of "[]" "trim s"] by (simp add: split_ws_def)
  with False show ?thesis
    by (simp add: validateFullName_def Let_def not_less)
qed

lemma validateFullName_Jane: "\<not> isValid (validateFullName (utf16 ''Jane''))"
  by (simp add: validateFullName_def utf16_def trim_def split_ws_def isWhiteSpace_def)

lemma validateFullName_Jane_Doe: "isValid (validateFullName (utf16 ''  Jane   Doe  ''))"
  by (simp add: validateFullName_def utf16_def trim_def split_ws_def isWhiteSpace_def)

lemma validateFullName_empty:
  "validateFullName (utf16 []) = \<lparr>isValid = False, error = Some ''Full name is required''\<rparr>"
  by (simp add: validateFullName_def utf16_def)

text \<open>
  Claim C7: for every string, \<open>validateFullName\<close> returns valid if and only if the trimmed
  input has at least 2 tokens delimited by white space; \<open>validateFullName("Jane")\<close> is
  invalid, \<open>validateFullName("  Jane   Doe  ")\<close> is valid, and \<open>validateFullName("")\<close> is
  invalid with the message "Full name is required".
\<close>

theorem validateFullName_two_tokens:
  "(isValid (validateFullName s) \<longleftrightarrow> 2 \<le> length (ws_tokens (trim s))) \<and>
   \<not> isValid (validateFullName (utf16 ''Jane'')) \<and>
   isValid (validateFullName (utf16 ''  Jane   Doe  '')) \<and>
   validateFullName (utf16 []) = \<lparr>isValid = False, error = Some ''Full name is required''\<rparr>"
  using validateFullName_iff validateFullName_Jane validateFullName_Jane_Doe
    validateFullName_empty
  by blast

theorem validateFullName_two_tokens_witness:
  "isValid (validateFullName (utf16 ''Ada King Lovelace'')) \<and>
   2 \<le> length (ws_tokens (trim (utf16 ''Ada King Lovelace'')))"
proof -
  have "isValid (validateFullName (utf16 ''Ada King Lovelace''))"
    by (simp add: validateFullName_def utf16_def trim_def split_ws_def isWhiteSpace_def)
  with validateFullName_two_tokens [of "utf16 ''Ada King Lovelace''"] show ?thesis
    by blast
qed

subsection \<open>The signature check\<close>

lemma toString16_digit: "n < 16 \<Longrightarrow> length (toString16 n) = 1"
  by (subst toString16.simps) simp

lemma toString16_length: "n < 256 \<Longrightarrow> length (toString16 n) \<le> 2"
proof (cases "n < 16")
  case True
  then show ?thesis by (simp add: toString16_digit)
next
  case False
  assume "n < 256"
  then have "n div 16 < 16" by simp
  then have "length (toString16 (n div 16)) = 1" by (rule toString16_digit)
  with False show ?thesis by (subst toString16.simps) simp
qed

lemma toString16_byte_length: "length (toString16 (unat (b :: byte))) \<le> 2"
proof -
  have "unat b < 2 ^ LENGTH(8)" by (rule unsigned_less)
  then show ?thesis by (intro toString16_length) simp
qed

lemma foldl_header:
  "foldl (\<lambda>header b. header @ toString16 (unat b)) acc arr =
     acc @ concat (map (\<lambda>b. toString16 (unat b)) arr)"
  by (induction arr arbitrary: acc) simp_all

lemma hexHeader_concat: "hexHeader arr = concat (map (\<lambda>b. toString16 (unat b)) arr)"
  by (simp add: hexHeader_def foldl_header)

lemma hexHeader_length: "length (hexHeader arr) \<le> 2 * length arr"
proof (induction arr)
  case Nil
  then show ?case by (simp add: hexHeader_concat)
next
  case (Cons b arr)
  then show ?case
    using toString16_byte_length [of b] by (simp add: hexHeader_concat)
qed

lemma startsWith_short: "length s < length p \<Longrightarrow> \<not> startsWith s p"
  by (auto simp: startsWith_def)

text \<open>
  Claim C10: for every file of fewer than 3 bytes, the empty file included,
  \<open>validateFileSignature\<close> resolves false: the header has at most 4 characters, fewer than
  every magic number.
\<close>

theorem validateFileSignature_short_file:
  "length (content f) < 3 \<Longrightarrow>
     length (hexHeader (take 4 (content f))) \<le> 4 \<and> \<not> validateFileSignature f"
proof -
  assume short: "length (content f) < 3"
  let ?h = "hexHeader (take 4 (take 4 (content f)))"
  have "length ?h \<le> 2 * length (take 4 (take 4 (content f)))"
    by (rule hexHeader_length)
  with short have len: "length ?h \<le> 4" by simp
  have "\<not> startsWith ?h ''89504e47''" "\<not> startsWith ?h ''ffd8ff''"
       "\<not> startsWith ?h ''47494638''" "\<not> startsWith ?h ''52494646''"
    using len by (simp_all add: startsWith_short)
  with len show ?thesis
    by (simp add: validateFileSignature_def signatureOnLoadEnd_def Let_def)
qed

theorem validateFileSignature_short_file_witness:
  "length (content \<lparr>fname = ''a.png'', ftype = ''image/png'', content = [0x89, 0x50]\<rparr>) < 3 \<and>
   \<not> validateFileSignature \<lparr>fname = ''a.png'', ftype = ''image/png'', content = [0x89, 0x50]\<rparr> \<and>
   \<not> validateFileSignature \<lparr>fname = ''empty.gif'', ftype = ''image/gif'', content = []\<rparr>"
  using validateFileSignature_short_file
          [of "\<lparr>fname = ''a.png'', ftype = ''image/png'', content = [0x89, 0x50]\<rparr>"]
        validateFileSignature_short_file
          [of "\<lparr>fname = ''empty.gif'', ftype = ''image/gif'', content = []\<rparr>"]
  by simp

text \<open>A file that starts with the bytes of a magic number passes the check.\<close>

lemma matchesMagicNumber_accepted: "matchesMagicNumber (content f) \<Longrightarrow> validateFileSignature f"
  apply (simp add: matchesMagicNumber_def magicNumbers_def validateFileSignature_def
      signatureOnLoadEnd_def hexHeader_concat startsWith_def)
  apply (elim disjE)
     apply (cases "content f"; cases "tl (content f)"; cases "tl (tl (content f))";
      cases "tl (tl (tl (content f)))"; simp add: toString16.simps)+
  done

lemma lt16: "n < 16 \<Longrightarrow> n \<in> {0, 1, 2, 3, 4, 5, 6, 7, 8, 9, 10, 11, 12, 13, 14, 15::nat}"
  by simp arith

lemma hexDigit_inj:
  "n < 16 \<Longrightarrow> m < 16 \<Longrightarrow>
     ''0123456789abcdef'' ! n = ''0123456789abcdef'' ! m \<longleftrightarrow> n = m"
  apply (drule lt16)
  apply (drule lt16)
  apply (elim insertE emptyE; simp)
  done

lemma toString16_two:
  assumes "16 \<le> n" "n < 256"
  shows "toString16 n = [''0123456789abcdef'' ! (n div 16), ''0123456789abcdef'' ! (n mod 16)]"
proof -
  from assms have "n div 16 < 16" by simp
  then have "toString16 (n div 16) = [''0123456789abcdef'' ! (n div 16)]"
    by (subst toString16.simps) simp
  with assms show ?thesis
    by (subst toString16.simps) simp
qed

lemma toString16_inj:
  assumes "16 \<le> n" "n < 256" "16 \<le> m" "m < 256"
  shows "toString16 n = toString16 m \<longleftrightarrow> n = m"
proof
  assume eq: "toString16 n = toString16 m"
  have b: "n div 16 < 16" "m div 16 < 16" "n mod 16 < 16" "m mod 16 < 16"
    using assms by simp_all
  from eq have "''0123456789abcdef'' ! (n div 16) = ''0123456789abcdef'' ! (m div 16)"
    and "''0123456789abcdef'' ! (n mod 16) = ''0123456789abcdef'' ! (m mod 16)"
    by (simp_all add: toString16_two assms)
  then have "n div 16 = m div 16" "n mod 16 = m mod 16"
    using b by (simp_all add: hexDigit_inj)
  then show "n = m" by (metis div_mult_mod_eq)
qed simp

lemma byte_range:
  fixes b :: byte
  assumes "0x10 \<le> b"
  shows "16 \<le> unat b" "unat b < 256"
proof -
  have "unat b < 2 ^ LENGTH(8)" by (rule unsigned_less)
  then show "unat b < 256" by simp
  from assms have "unat (0x10 :: byte) \<le> unat b" by (simp only: word_le_nat_alt)
  then show "16 \<le> unat b" by simp
qed

lemma byte_hex_inj:
  fixes b w :: byte
  assumes "0x10 \<le> b" "0x10 \<le> w"
  shows "toString16 (unat b) = toString16 (unat w) \<longleftrightarrow> b = w"
  using toString16_inj [OF byte_range [OF assms(1)] byte_range [OF assms(2)]]
  by (simp add: word_unat_eq_iff)

lemma byte_hex_length:
  fixes b :: byte
  shows "0x10 \<le> b \<Longrightarrow> length (toString16 (unat b)) = 2"
  using byte_range [of b] by (simp add: toString16_two)

lemma startsWith_blocks:
  "length x = length c \<Longrightarrow> startsWith (x @ s) (c @ p) \<longleftrightarrow> x = c \<and> startsWith s p"
  by (auto simp: startsWith_def)

lemma hexHeader_Cons: "hexHeader (b # bs) = toString16 (unat b) @ hexHeader bs"
  by (simp add: hexHeader_concat)

lemma startsWith_hexHeader:
  assumes "\<forall>b\<in>set bs. 0x10 \<le> b" "\<forall>w\<in>set ws. 0x10 \<le> w"
  shows "startsWith (hexHeader bs) (hexHeader ws) \<longleftrightarrow> take (length ws) bs = ws"
  using assms
proof (induction ws arbitrary: bs)
  case Nil
  then show ?case by (simp add: startsWith_def hexHeader_def)
next
  case (Cons w ws)
  show ?case
  proof (cases bs)
    case Nil
    have "length (hexHeader (w # ws)) > 0"
      using Cons.prems(2) byte_hex_length [of w] by (simp add: hexHeader_Cons)
    with Nil show ?thesis by (auto simp: startsWith_def hexHeader_def)
  next
    case (Cons b bs')
    have bw: "0x10 \<le> b" "0x10 \<le> w" using Cons Cons.prems by simp_all
    have "startsWith (hexHeader bs') (hexHeader ws) \<longleftrightarrow> take (length ws) bs' = ws"
      using Cons Cons.prems by (intro Cons.IH) simp_all
    then show ?thesis
      using bw by (simp add: Cons hexHeader_Cons startsWith_blocks byte_hex_length byte_hex_inj)
  qed
qed

lemma magic_headers:
  "''89504e47'' = hexHeader [0x89, 0x50, 0x4e, 0x47]"
  "''ffd8ff'' = hexHeader [0xff, 0xd8, 0xff]"
  "''47494638'' = hexHeader [0x47, 0x49, 0x46, 0x38]"
  "''52494646'' = hexHeader [0x52, 0x49, 0x46, 0x46]"
  by (simp_all add: hexHeader_def toString16.simps)

text \<open>
  Where none of the first four bytes is below \<^verbatim>\<open>0x10\<close>, every byte renders as two digits
  and the check accepts exactly the files that start with a magic number.
\<close>

lemma validateFileSignature_padded:
  assumes "\<forall>b \<in> set (take 4 (content f)). 0x10 \<le> b"
  shows "validateFileSignature f \<longleftrightarrow> matchesMagicNumber (content f)"
proof -
  let ?bs = "take 4 (content f)"
  have "startsWith (hexHeader ?bs) (hexHeader ws) \<longleftrightarrow> take (length ws) ?bs = ws"
    if "\<forall>w\<in>set ws. 0x10 \<le> w" for ws
    using assms that by (rule startsWith_hexHeader)
  then show ?thesis
    by (simp add: validateFileSignature_def signatureOnLoadEnd_def Let_def magic_headers
        matchesMagicNumber_def magicNumbers_def del: take_take)
qed

text \<open>
  Claim C1: a file whose declared MIME type is in the allow-list and whose first 4 bytes match
  none of the magic numbers is refused by \<open>validateFileSignature\<close>, and \<open>onFileChange\<close>
  never opens the cropper for it. The code renders each byte without a leading zero, so the
  bytes \<^verbatim>\<open>ff d8 0f 0f\<close> give the header \<^verbatim>\<open>ffd8ff\<close>: the file below, declared a JPEG,
  matches no magic number, passes the check all the same, and the cropper opens.
\<close>

theorem validateFileSignature_unpadded_hex:
  "\<not> matchesMagicNumber [0xff, 0xd8, 0x0f, 0x0f] \<and>
   ''image/jpeg'' \<in> set allowedTypes \<and>
   hexHeader [0xff, 0xd8, 0x0f, 0x0f] = ''ffd8ff'' \<and>
   validateFileSignature
     \<lparr>fname = ''a.jpg'', ftype = ''image/jpeg'', content = [0xff, 0xd8, 0x0f, 0x0f]\<rparr> \<and>
   fst (onFileChange (Some dataUrl)
          (Some \<lparr>fname = ''a.jpg'', ftype = ''image/jpeg'', content = [0xff, 0xd8, 0x0f, 0x0f]\<rparr>) s)
     = s\<lparr>crop := (0, 0), zoom := 1, croppedAreaPixels := None, cropImage := Some dataUrl,
          isCroppingOpen := True\<rparr>"
proof -
  have h: "hexHeader [0xff, 0xd8, 0x0f, 0x0f] = ''ffd8ff''"
    by (simp add: hexHeader_def toString16.simps)
  have v: "validateFileSignature
     \<lparr>fname = ''a.jpg'', ftype = ''image/jpeg'', content = [0xff, 0xd8, 0x0f, 0x0f]\<rparr>"
    by (simp add: validateFileSignature_def signatureOnLoadEnd_def h startsWith_def)
  have m: "\<not> matchesMagicNumber [0xff, 0xd8, 0x0f, 0x0f]"
    by (simp add: matchesMagicNumber_def magicNumbers_def)
  show ?thesis
    using h v m by (simp add: onFileChange_def allowedTypes_def fsize_def)
qed

subsection \<open>The size gate of onFileChange\<close>

lemma largePng_size: "fsize largePng > 20 * 1024 * 1024"
  by (simp add: fsize_def largePng_def)

lemma largePng_valid: "validateFileSignature largePng"
  by (simp add: validateFileSignature_def largePng_def signatureOnLoadEnd_def hexHeader_def
      toString16.simps startsWith_def)

text \<open>
  Claim C9, as amended: for every selected file of more than 20 MiB, \<open>onFileChange\<close> rejects
  the file whatever its content: the state is unchanged, the cropper is not opened and an
  error is shown. The size is tested last: a file whose type is not allowed is rejected for
  its type, otherwise the signature is read, and a file with a valid signature is then
  rejected for its size.
\<close>

theorem onFileChange_too_large:
  assumes "fsize f > 20 * 1024 * 1024"
  shows "fst (onFileChange loaded (Some f) s) = s \<and>
         snd (onFileChange loaded (Some f) s) =
           (if ftype f \<notin> set allowedTypes
            then [ToastError ''Invalid file type''
                    (Some ''Please upload an image (JPEG, PNG, WEBP, GIF)'')]
            else if \<not> validateFileSignature f
            then [ReadAsArrayBuffer 0 4,
                  ToastError ''Invalid file content''
                    (Some ''The file content does not match its extension.'')]
            else [ReadAsArrayBuffer 0 4,
                  ToastError ''File is too large!'' (Some ''Maximum file size is 20MB'')])"
  using assms by (simp add: onFileChange_def)

theorem onFileChange_too_large_witness:
  "fsize largePng > 20 * 1024 * 1024 \<and>
   fst (onFileChange (Some ''data:image/png;base64,iVBORw0KGgo='') (Some largePng) croppingState)
     = croppingState"
  using onFileChange_too_large
          [of largePng "Some ''data:image/png;base64,iVBORw0KGgo=''" croppingState]
        largePng_size
  by simp

text \<open>
  Claim C9 as stated, the rejection of a file of more than 20 MiB comes before the signature
  check, fails: for a PNG of 20 MiB and 4 bytes the first four bytes are read and checked, and
  only then is the file rejected for its size.
\<close>

theorem onFileChange_size_after_signature:
  "fsize largePng > 20 * 1024 * 1024 \<and>
   snd (onFileChange None (Some largePng) croppingState) =
     [ReadAsArrayBuffer 0 4,
      ToastError ''File is too large!'' (Some ''Maximum file size is 20MB'')]"
  using largePng_size largePng_valid
  by (simp add: onFileChange_def allowedTypes_def largePng_def)

subsection \<open>Role entries\<close>

lemma roleEntries_set:
  "e \<in> set (roleEntries (Some rs) m) \<longleftrightarrow>
     (\<exists>k title team. (k, title) \<in> set rs \<and> m k = Some team \<and>
        e = \<lparr>teamPk = k, roleTitle = title, teamInfo = Some team\<rparr>)"
proof
  assume "e \<in> set (roleEntries (Some rs) m)"
  then show "\<exists>k title team. (k, title) \<in> set rs \<and> m k = Some team \<and>
        e = \<lparr>teamPk = k, roleTitle = title, teamInfo = Some team\<rparr>"
    by (auto simp: roleEntries_def)
next
  assume "\<exists>k title team. (k, title) \<in> set rs \<and> m k = Some team \<and>
        e = \<lparr>teamPk = k, roleTitle = title, teamInfo = Some team\<rparr>"
  then obtain k title team where kt: "(k, title) \<in> set rs" and mk: "m k = Some team"
    and e: "e = \<lparr>teamPk = k, roleTitle = title, teamInfo = Some team\<rparr>"
    by blast
  have "e = (\<lambda>(pk', title). \<lparr>teamPk = pk', roleTitle = title, teamInfo = m pk'\<rparr>) (k, title)"
    by (simp add: e mk)
  with kt have
    "e \<in> (\<lambda>(pk', title). \<lparr>teamPk = pk', roleTitle = title, teamInfo = m pk'\<rparr>) ` set rs"
    by (rule image_eqI [rotated])
  then show "e \<in> set (roleEntries (Some rs) m)"
    by (simp add: roleEntries_def e)
qed

lemma roleEntries_empty_map: "roleEntries rs Map.empty = []"
  by (cases rs) (simp_all add: roleEntries_def filter_empty_conv split_beta)

lemma roleEntries_pks:
  "map teamPk (roleEntries (Some rs) m) = filter (\<lambda>k. m k \<noteq> None) (map fst rs)"
  by (induction rs) (auto simp: roleEntries_def)

text \<open>
  Claim C6: for every roles mapping and every lookup map keyed by team pk, the builder emits
  a role entry for a team pk if and only if the pk resolves in the map, and roles of unknown
  teams are dropped: the entries are those of the roles whose pk resolves, each with its
  title and its team, in the order of the roles; the roles \<open>{"t1": "Lead"}\<close> with a map of
  \<open>"t2"\<close> alone give no entry, and so does an empty map.
\<close>

theorem roleEntries_resolved:
  "(\<forall>e. e \<in> set (roleEntries (Some rs) m) \<longleftrightarrow>
      (\<exists>k title team. (k, title) \<in> set rs \<and> m k = Some team \<and>
         e = \<lparr>teamPk = k, roleTitle = title, teamInfo = Some team\<rparr>)) \<and>
   map teamPk (roleEntries (Some rs) m) = filter (\<lambda>k. m k \<noteq> None) (map fst rs) \<and>
   roleEntries (Some [(''t1'', ''Lead'')]) [''t2'' \<mapsto> team] = [] \<and>
   roleEntries (Some rs) Map.empty = [] \<and>
   roleEntries None m = []"
proof -
  have "roleEntries (Some [(''t1'', ''Lead'')]) [''t2'' \<mapsto> team] = []"
    by (simp add: roleEntries_def)
  moreover have "roleEntries (Some rs) Map.empty = []"
    by (rule roleEntries_empty_map)
  moreover have "roleEntries None m = []"
    by (simp add: roleEntries_def)
  ultimately show ?thesis
    using roleEntries_set [of _ rs m] roleEntries_pks [of rs m] by blast
qed

theorem roleEntries_resolved_witness:
  "map teamPk
     (roleEntries (Some [(''t1'', ''Lead''), (''t2'', ''Member'')]) [''t2'' \<mapsto> exampleTeam])
     = [''t2''] \<and>
   \<lparr>teamPk = ''t2'', roleTitle = ''Member'', teamInfo = Some exampleTeam\<rparr>
     \<in> set (roleEntries (Some [(''t1'', ''Lead''), (''t2'', ''Member'')])
              [''t2'' \<mapsto> exampleTeam])"
  using roleEntries_resolved
          [of "[(''t1'', ''Lead''), (''t2'', ''Member'')]" "[''t2'' \<mapsto> exampleTeam]"]
  by simp

subsection \<open>Saving the profile\<close>

lemma handleSave_ok:
  "handleSave (Response True body) u s =
     (s\<lparr>isSaving := False\<rparr>,
      [Patch (pk u) (patchBody s), ToastSuccess ''Profile updated successfully!'',
       OnSuccess (mergedUser u s), OnClose])"
  by (simp add: handleSave_def saveTry_def patchBody_def mergedUser_def)

lemma handleSave_failed:
  "res = Threw e \<or> res = Response False body \<Longrightarrow>
   handleSave res u s =
     (s\<lparr>isSaving := False\<rparr>,
      [Patch (pk u) (patchBody s),
       ToastError ''Save failed''
         (case res of
            Threw e \<Rightarrow> e
          | Response ok b \<Rightarrow>
              (case b of
                 Inl e \<Rightarrow> e
               | Inr message \<Rightarrow>
                   Some (orString (case message of None \<Rightarrow> [] | Some m \<Rightarrow> m)
                           ''Failed to update profile'')))])"
  by (auto simp: handleSave_def saveTry_def patchBody_def split: sum.splits)

text \<open>\<^verbatim>\<open>onSuccess\<close> is called in the successful saves only, with the merged record.\<close>

lemma handleSave_OnSuccess:
  "OnSuccess u' \<in> set (snd (handleSave res u s)) \<longleftrightarrow>
     (\<exists>body. res = Response True body) \<and> u' = mergedUser u s"
proof (cases res)
  case (Threw e)
  then show ?thesis using handleSave_failed [of res e undefined u s] by simp
next
  case (Response ok body)
  then show ?thesis
    using handleSave_failed [of res undefined body u s] handleSave_ok [of body u s]
    by (cases ok) auto
qed

text \<open>
  Claim C5: for every successful save, the merged record passed to \<open>onSuccess\<close> differs from
  the prior record only in the avatar of the user and in the attributes major, phoneNumber,
  expectedGrad and avatar; every other field is unchanged, \<open>pk\<close> and \<open>username\<close> among
  them.
\<close>

theorem handleSave_frame:
  "(OnSuccess (mergedUser u s) \<in> set (snd (handleSave (Response True body) u s))) \<and>
   (OnSuccess u' \<in> set (snd (handleSave res u s)) \<longrightarrow>
      pk u' = pk u \<and> username u' = username u \<and> name u' = name u \<and> email u' = email u \<and>
      memberSince u' = memberSince u \<and> active u' = active u \<and>
      is_superuser u' = is_superuser u \<and> groups u' = groups u \<and>
      last_login u' = last_login u \<and> user_type u' = user_type u \<and>
      groupsInfo u' = groupsInfo u \<and>
      roles (attributes u') = roles (attributes u) \<and>
      alumniAccount (attributes u') = alumniAccount (attributes u) \<and>
      u' = u\<lparr>user_avatar := user_avatar u',
             attributes := (attributes u)
               \<lparr>major := major (attributes u'), phoneNumber := phoneNumber (attributes u'),
                expectedGrad := expectedGrad (attributes u'),
                avatar := avatar (attributes u')\<rparr>\<rparr>)"
proof -
  have "OnSuccess (mergedUser u s) \<in> set (snd (handleSave (Response True body) u s))"
    by (simp add: handleSave_ok)
  moreover have "OnSuccess u' \<in> set (snd (handleSave res u s)) \<Longrightarrow> u' = mergedUser u s"
    by (simp add: handleSave_OnSuccess)
  ultimately show ?thesis
    by (auto simp: mergedUser_def)
qed

theorem handleSave_frame_witness:
  "OnSuccess (mergedUser exampleUser croppingState)
     \<in> set (snd (handleSave (Response True (Inr None)) exampleUser croppingState)) \<and>
   pk (mergedUser exampleUser croppingState) = ''42'' \<and>
   username (mergedUser exampleUser croppingState) = ''jdoe''"
  using handleSave_frame [of exampleUser croppingState "Inr None"
      "mergedUser exampleUser croppingState" "Response True (Inr None)"]
  by (simp add: exampleUser_def)

lemma majorsFetched_selectedMajor:
  "selectedMajor (majorsFetched data u s) = selectedMajor s \<or>
   (\<exists>m. selectedMajor (majorsFetched data u s) = Some m \<and> major_name m = major (attributes u))"
  by (auto simp: majorsFetched_def Let_def find_Some_iff split: option.splits)

text \<open>
  After a successful save in which only the phone number was changed (the other hooks as
  initialised from the prior record, before or after the list of majors has arrived), the
  merged record has the major, the avatar key and the avatar of the prior record, and the new
  phone number.
\<close>

lemma handleSave_only_phone_kept:
  assumes "s0 = initModal fmt u \<or> s0 = majorsFetched data u (initModal fmt u)"
    and "s = s0\<lparr>st_phoneNumber := p\<rparr>"
    and "OnSuccess u' \<in> set (snd (handleSave res u s))"
  shows "major (attributes u') = major (attributes u) \<and>
         avatar (attributes u') = avatar (attributes u) \<and>
         user_avatar u' = user_avatar u \<and>
         phoneNumber (attributes u') = p"
proof -
  from assms(3) have u': "u' = mergedUser u s" by (simp add: handleSave_OnSuccess)
  have sel: "selectedMajor s = None \<or>
      (\<exists>m. selectedMajor s = Some m \<and> major_name m = major (attributes u))"
    using assms(1,2) majorsFetched_selectedMajor [of data u "initModal fmt u"]
    by (auto simp: initModal_def)
  have rest: "preview s = Some (user_avatar u)" "avatarKey s = avatar (attributes u)"
    "st_phoneNumber s = p"
    using assms(1,2) by (auto simp: initModal_def majorsFetched_def Let_def split: option.splits)
  show ?thesis
    using sel rest
    by (auto simp: u' mergedUser_def orString_def orOption_def split: option.splits)
qed

lemma formatLocalDate_midnight: "formatLocalDate 5 ''2026-05-15T00:00:00.000Z'' = ''2026-05-14''"
  by (simp add: formatLocalDate_def digitsToNat_def dayBefore_def twoDigits_def fourDigits_def)

text \<open>
  Claim C4: after a successful save in which only the phone number was changed, the merged
  record passed to \<open>onSuccess\<close> has the major, the expectedGrad and the avatar of the prior
  record. The code keeps the major and the avatar, and not the expectedGrad: the hook is
  initialised with the local rendering of the prior value and merged back as the major and
  the avatar are. For the user below, whose graduation date is midnight UTC of 15 May 2026,
  in a browser five hours behind UTC, a save that changes the phone number passes a record
  with 14 May 2026 to \<open>onSuccess\<close> and sends that day in the PATCH.
\<close>

theorem handleSave_expectedGrad_shifted:
  "expectedGrad (attributes midnightUser) = ''2026-05-15T00:00:00.000Z'' \<and>
   snd (handleSave (Response True body) midnightUser
          ((initModal (formatLocalDate 5) midnightUser)
             \<lparr>st_phoneNumber := ''+12025550199''\<rparr>)) =
     [Patch ''42''
        \<lparr>patch_major = None, patch_phoneNumber = ''+12025550199'',
         patch_expectedGrad = Some ''2026-05-14T00:00:00.000Z'',
         patch_avatar = Some ''avatars/42.webp''\<rparr>,
      ToastSuccess ''Profile updated successfully!'',
      OnSuccess
        (midnightUser\<lparr>attributes :=
           (attributes midnightUser)
             \<lparr>phoneNumber := ''+12025550199'', expectedGrad := ''2026-05-14''\<rparr>\<rparr>),
      OnClose]"
  by (simp add: handleSave_ok mergedUser_def patchBody_def dateToJSON_def initModal_def
      formatLocalDate_midnight midnightUser_def exampleUser_def orString_def orOption_def)

text \<open>
  Where the local date is the date of the timestamp, the record passed to \<open>onSuccess\<close> still
  holds the rendering \<^verbatim>\<open>2026-05-15\<close> in place of the timestamp
  \<^verbatim>\<open>2026-05-15T12:00:00.000Z\<close> of the prior record.
\<close>

lemma handleSave_expectedGrad_reformatted:
  "snd (handleSave (Response True (Inr None)) exampleUser
          ((initModal formatISODate exampleUser)\<lparr>st_phoneNumber := ''+12025550199''\<rparr>)) ! 2
     = OnSuccess (mergedUser exampleUser
          ((initModal formatISODate exampleUser)\<lparr>st_phoneNumber := ''+12025550199''\<rparr>)) \<and>
   expectedGrad (attributes exampleUser) = ''2026-05-15T12:00:00.000Z'' \<and>
   expectedGrad (attributes (mergedUser exampleUser
          ((initModal formatISODate exampleUser)\<lparr>st_phoneNumber := ''+12025550199''\<rparr>)))
     = ''2026-05-15'' \<and>
   expectedGrad (attributes (mergedUser exampleUser
          ((initModal formatISODate exampleUser)\<lparr>st_phoneNumber := ''+12025550199''\<rparr>)))
     \<noteq> expectedGrad (attributes exampleUser)"
  by (simp add: handleSave_ok mergedUser_def initModal_def exampleUser_def formatISODate_def
      orString_def)

text \<open>
  Claim C8, as amended: in every run of \<open>handleSave\<close> in which the PATCH fails (the request
  throws, or the response is not ok), the staged values and the user record of the page are
  unchanged, neither \<open>onSuccess\<close> nor \<open>onClose\<close> is called, and the toast "Save failed" is
  shown. Its description is the message of the server when the response is not ok and its
  body has a non-empty message, "Failed to update profile" when that body has none, and the
  message of the thrown value when the request or the reading of the body throws.
\<close>

theorem handleSave_failure:
  assumes "res = Threw e \<or> res = Response False body"
  shows "fst (handleSave res u s) = s\<lparr>isSaving := False\<rparr> \<and>
         st_phoneNumber (fst (handleSave res u s)) = st_phoneNumber s \<and>
         st_expectedGrad (fst (handleSave res u s)) = st_expectedGrad s \<and>
         selectedMajor (fst (handleSave res u s)) = selectedMajor s \<and>
         avatarKey (fst (handleSave res u s)) = avatarKey s \<and>
         preview (fst (handleSave res u s)) = preview s \<and>
         (\<forall>x. OnSuccess x \<notin> set (snd (handleSave res u s))) \<and>
         OnClose \<notin> set (snd (handleSave res u s)) \<and>
         callbacks (snd (handleSave res u s)) d = d \<and>
         snd (handleSave res u s) =
           [Patch (pk u) (patchBody s),
            ToastError ''Save failed''
              (case res of
                 Threw thrown \<Rightarrow> thrown
               | Response ok (Inl thrown) \<Rightarrow> thrown
               | Response ok (Inr None) \<Rightarrow> Some ''Failed to update profile''
               | Response ok (Inr (Some m)) \<Rightarrow>
                   Some (if m \<noteq> [] then m else ''Failed to update profile''))]"
  using handleSave_failed [OF assms, of u s]
  by (auto simp: callbacks_def orString_def split: sum.splits option.splits response.splits)

theorem handleSave_failure_witness:
  "snd (handleSave (Response False (Inr (Some ''Phone number is invalid''))) exampleUser
          croppingState) =
     [Patch ''42'' (patchBody croppingState),
      ToastError ''Save failed'' (Some ''Phone number is invalid'')] \<and>
   snd (handleSave (Response False (Inr None)) exampleUser croppingState) =
     [Patch ''42'' (patchBody croppingState),
      ToastError ''Save failed'' (Some ''Failed to update profile'')]"
  using handleSave_failure
          [of "Response False (Inr (Some ''Phone number is invalid''))" None
              "Inr (Some ''Phone number is invalid'')" exampleUser croppingState]
        handleSave_failure
          [of "Response False (Inr None)" None "Inr None" exampleUser croppingState]
  by (simp add: exampleUser_def)

text \<open>
  Claim C8 as stated, the message is the text of the server if present and a generic message
  otherwise, fails where something is thrown: when the request itself throws there is no
  text of the server, and when the body of a response that is not ok cannot be parsed the
  parser throws; the description shown is then the message of the thrown error, not
  "Failed to update profile".
\<close>

theorem handleSave_thrown_message:
  "snd (handleSave (Threw (Some ''Failed to fetch'')) exampleUser croppingState) =
     [Patch ''42'' (patchBody croppingState),
      ToastError ''Save failed'' (Some ''Failed to fetch'')] \<and>
   ToastError ''Save failed'' (Some ''Failed to update profile'')
     \<notin> set (snd (handleSave (Threw (Some ''Failed to fetch'')) exampleUser croppingState)) \<and>
   snd (handleSave (Response False (Inl (Some ''Unexpected token < in JSON at position 0'')))
          exampleUser croppingState) =
     [Patch ''42'' (patchBody croppingState),
      ToastError ''Save failed'' (Some ''Unexpected token < in JSON at position 0'')]"
  by (simp add: handleSave_def saveTry_def exampleUser_def patchBody_def)

subsection \<open>Uploading the avatar\<close>

lemma process_not_started:
  "cropImage s = None \<or> cropImage s = Some [] \<or> croppedAreaPixels s = None \<Longrightarrow>
     processAndUploadAvatar env s = (s, [])"
  by (auto simp: processAndUploadAvatar_def)

lemma process_started:
  assumes "\<not> (cropImage s = None \<or> cropImage s = Some [] \<or> croppedAreaPixels s = None)"
  shows "processAndUploadAvatar env s =
     ((fst (uploadTry env (s\<lparr>isUploading := True, isCroppingOpen := False\<rparr>)))
        \<lparr>isUploading := False, cropImage := None\<rparr>,
      ToastInfo ''Processing image...'' #
      fst (snd (uploadTry env (s\<lparr>isUploading := True, isCroppingOpen := False\<rparr>))) @
      (case snd (snd (uploadTry env (s\<lparr>isUploading := True, isCroppingOpen := False\<rparr>))) of
         None \<Rightarrow> []
       | Some e \<Rightarrow> [ToastError ''Upload failed'' e]))"
  using assms by (simp add: processAndUploadAvatar_def split: prod.splits)

lemma uploadTry_avatarKey:
  "avatarKey (fst (uploadTry env s)) =
     (if \<not> isl (getCroppedImg env) \<and> \<not> isl (compressed env) \<and> uploadTarget env \<noteq> None \<and>
         storageOk env
      then map_option key (uploadTarget env) else avatarKey s)"
  by (auto simp: uploadTry_def uploadTarget_def storageOk_def Let_def
      split: sum.splits response.splits)

lemma uploadTry_no_post:
  "uploadTarget env = None \<Longrightarrow> PostStorage u fs f \<notin> set (fst (snd (uploadTry env s)))"
  by (auto simp: uploadTry_def uploadTarget_def Let_def
      split: sum.splits response.splits if_splits)

lemma process_avatarKey:
  "avatarKey (fst (processAndUploadAvatar env s)) =
     (if reachesUpload env s \<and> uploadTarget env \<noteq> None \<and> storageOk env
      then map_option key (uploadTarget env) else avatarKey s)"
proof (cases "cropImage s = None \<or> cropImage s = Some [] \<or> croppedAreaPixels s = None")
  case True
  then show ?thesis by (auto simp: process_not_started reachesUpload_def)
next
  case False
  then show ?thesis
    by (simp add: process_started uploadTry_avatarKey reachesUpload_def)
qed

lemma process_no_post:
  assumes "uploadTarget env = None"
  shows "PostStorage u fs f \<notin> set (snd (processAndUploadAvatar env s))"
proof (cases "cropImage s = None \<or> cropImage s = Some [] \<or> croppedAreaPixels s = None")
  case True
  then show ?thesis by (simp add: process_not_started)
next
  case False
  then show ?thesis
    using uploadTry_no_post
            [OF assms, of u fs f "s\<lparr>isUploading := True, isCroppingOpen := False\<rparr>"]
    by (simp add: process_started split: option.splits)
qed

lemma process_success:
  assumes "reachesUpload env s" "uploadTarget env = Some t" "storageOk env"
  shows "snd (processAndUploadAvatar env s) =
     [ToastInfo ''Processing image...'', GetUploadUrl ''avatar.webp'' ''image/webp'',
      PostStorage (uploadUrl t) (form_fields t @ [(''file'', ''avatar.webp'')])
        \<lparr>fname = ''avatar.webp'', ftype = ''image/webp'', content = projr (compressed env)\<rparr>,
      ToastSuccess ''Profile picture updated!'']"
  using assms
  by (auto simp: processAndUploadAvatar_def reachesUpload_def uploadTry_def uploadTarget_def
      storageOk_def Let_def split: sum.splits response.splits if_splits)

lemma process_failure:
  assumes "reachesUpload env s" "uploadTarget env = None \<or> \<not> storageOk env"
  shows "preview (fst (processAndUploadAvatar env s)) = Some (objectURL env) \<and>
         (\<exists>e. last (snd (processAndUploadAvatar env s)) = ToastError ''Upload failed'' e)"
  using assms
  by (auto simp: processAndUploadAvatar_def reachesUpload_def uploadTry_def uploadTarget_def
      storageOk_def Let_def split: sum.splits response.splits if_splits)

text \<open>
  Claim C3: in every run of \<open>processAndUploadAvatar\<close>, if the upload-URL request fails, no
  POST to a storage endpoint is made and \<open>avatarKey\<close> stays as it was; \<open>avatarKey\<close> is set,
  to the key returned, only after both the upload-URL request and the storage POST have
  succeeded, and in that run the POST follows the request.
\<close>

theorem upload_key_after_both_succeed:
  "(uploadTarget env = None \<longrightarrow>
      (\<forall>u fs f. PostStorage u fs f \<notin> set (snd (processAndUploadAvatar env s))) \<and>
      avatarKey (fst (processAndUploadAvatar env s)) = avatarKey s) \<and>
   avatarKey (fst (processAndUploadAvatar env s)) =
     (if reachesUpload env s \<and> uploadTarget env \<noteq> None \<and> storageOk env
      then map_option key (uploadTarget env) else avatarKey s) \<and>
   (reachesUpload env s \<and> uploadTarget env = Some t \<and> storageOk env \<longrightarrow>
      snd (processAndUploadAvatar env s) =
        [ToastInfo ''Processing image...'', GetUploadUrl ''avatar.webp'' ''image/webp'',
         PostStorage (uploadUrl t) (form_fields t @ [(''file'', ''avatar.webp'')])
           \<lparr>fname = ''avatar.webp'', ftype = ''image/webp'',
            content = projr (compressed env)\<rparr>,
         ToastSuccess ''Profile picture updated!''])"
  using process_no_post [of env _ _ _ s] process_avatarKey [of env s]
    process_success [of env s t]
  by simp

theorem upload_key_after_both_succeed_witness:
  "uploadTarget uploadUrlRefused = None \<and>
   snd (processAndUploadAvatar uploadUrlRefused croppingState) =
     [ToastInfo ''Processing image...'', GetUploadUrl ''avatar.webp'' ''image/webp'',
      ToastError ''Upload failed'' (Some ''Failed to get upload URL'')] \<and>
   avatarKey (fst (processAndUploadAvatar uploadUrlRefused croppingState))
     = Some ''avatars/42.webp'' \<and>
   reachesUpload uploadAccepted croppingState \<and> storageOk uploadAccepted \<and>
   avatarKey (fst (processAndUploadAvatar uploadAccepted croppingState))
     = Some ''avatars/42-new.webp''"
proof -
  have a: "uploadTarget uploadUrlRefused = None"
    by (simp add: uploadTarget_def uploadUrlRefused_def)
  have b: "reachesUpload uploadAccepted croppingState" "storageOk uploadAccepted"
    "uploadTarget uploadAccepted \<noteq> None"
    "map_option key (uploadTarget uploadAccepted) = Some ''avatars/42-new.webp''"
    by (simp_all add: reachesUpload_def uploadAccepted_def uploadUrlRefused_def
        croppingState_def getCroppedImg_def storageOk_def uploadTarget_def)
  have c: "avatarKey croppingState = Some ''avatars/42.webp''"
    by (simp add: croppingState_def initModal_def exampleUser_def)
  have d: "snd (processAndUploadAvatar uploadUrlRefused croppingState) =
     [ToastInfo ''Processing image...'', GetUploadUrl ''avatar.webp'' ''image/webp'',
      ToastError ''Upload failed'' (Some ''Failed to get upload URL'')]"
    by (simp add: processAndUploadAvatar_def uploadTry_def uploadUrlRefused_def
        croppingState_def getCroppedImg_def)
  show ?thesis
    using upload_key_after_both_succeed [of uploadUrlRefused croppingState]
      upload_key_after_both_succeed [of uploadAccepted croppingState] a b c d
    by simp
qed

text \<open>
  Claim C2, as amended: in every run of \<open>processAndUploadAvatar\<close> in which the upload-URL
  request or the storage POST fails, \<open>avatarKey\<close> is not set; the preview has been replaced
  by the object URL of the compressed file before the upload-URL request is made, and it
  stays so; the toast "Upload failed" is shown.
\<close>

theorem upload_failure_keeps_key:
  assumes "reachesUpload env s" "uploadTarget env = None \<or> \<not> storageOk env"
  shows "avatarKey (fst (processAndUploadAvatar env s)) = avatarKey s \<and>
         preview (fst (processAndUploadAvatar env s)) = Some (objectURL env) \<and>
         (\<exists>e. last (snd (processAndUploadAvatar env s)) = ToastError ''Upload failed'' e)"
  using process_failure [OF assms] process_avatarKey [of env s] assms(2)
  by auto

theorem upload_failure_keeps_key_witness:
  "reachesUpload uploadUrlRefused croppingState \<and> uploadTarget uploadUrlRefused = None \<and>
   avatarKey (fst (processAndUploadAvatar uploadUrlRefused croppingState))
     = avatarKey croppingState \<and>
   preview (fst (processAndUploadAvatar uploadUrlRefused croppingState)) = Some ''blob:avatar-1''"
proof -
  have a: "uploadTarget uploadUrlRefused = None"
    by (simp add: uploadTarget_def uploadUrlRefused_def)
  have b: "reachesUpload uploadUrlRefused croppingState"
    by (simp add: reachesUpload_def uploadUrlRefused_def croppingState_def getCroppedImg_def)
  have c: "objectURL uploadUrlRefused = ''blob:avatar-1''"
    by (simp add: uploadUrlRefused_def)
  show ?thesis
    using upload_failure_keeps_key [of uploadUrlRefused croppingState] a b c by simp
qed

text \<open>
  Claim C2 as stated, the preview shown before is left untouched when the upload fails,
  fails: with the upload-URL request refused (HTTP 500), the preview of the example user
  has changed from the URL of the old avatar to the object URL of the new file.
\<close>

theorem upload_failure_swaps_preview:
  "uploadUrlResponse uploadUrlRefused = Response False (Inl None) \<and>
   preview croppingState = Some ''https://cdn.example/avatars/42.webp'' \<and>
   preview (fst (processAndUploadAvatar uploadUrlRefused croppingState))
     = Some ''blob:avatar-1'' \<and>
   preview (fst (processAndUploadAvatar uploadUrlRefused croppingState))
     \<noteq> preview croppingState"
  by (simp add: processAndUploadAvatar_def uploadTry_def uploadUrlRefused_def
      croppingState_def getCroppedImg_def initModal_def exampleUser_def)

end
